theory Spec2Isabelle
  imports Main "HOL-Library.Sublist" "HOL-Library.Product_Lexorder"
begin

section \<open>MultiTypeCollection: a collection storing values in per-type sequences\<close>

text \<open>
  A shallow embedding of \<^verbatim>\<open>grr/lib/aff4_objects/multi_type_collection.py\<close>.
  The class \<^verbatim>\<open>MultiTypeCollection\<close> is embedded function by function. Its collaborators
  (the data store, the mutation pool, the deletion pool, the sequential collection, the
  GrrMessage envelope, the AFF4 factory and base class) live in other modules of the
  repository; they are modelled from the specification, each under a comment that says so.
\<close>

subsection \<open>Names, values and the envelope\<close>

text \<open>
  Modelled from the spec: the RDFURN type (\<^verbatim>\<open>grr.lib.rdfvalue\<close>) is missing. The spec
  calls it "an opaque hierarchical path/identifier": a URN is the list of its path
  components. A component is a name, or the rendering of an ordering key
  (timestamp, suffix) under which the sequence primitive files one entry.
\<close>

datatype component = Name string | EntryKey nat nat

type_synonym urn = "component list"

type_synonym token = string

text \<open>Modelled from the spec: \<^verbatim>\<open>RDFURN.Add\<close> is missing; it appends one path component.\<close>

definition urn_Add :: "urn \<Rightarrow> string \<Rightarrow> urn" where
  "urn_Add u name = u @ [Name name]"

text \<open>
  Modelled from the spec: the envelope \<^verbatim>\<open>rdf_flows.GrrMessage\<close> is missing. It is "a
  tagged-variant envelope carrying an explicit type-name field, computed once at write
  time and stored alongside the payload". An RDF value that is not an envelope has a class
  name and a serialised body.
\<close>

record GrrMessage =
  args_rdf_name :: "string option"
  args :: "string option"
  session_id :: string

record plain_value =
  class_name :: string
  body :: string

datatype rdf_value = Message GrrMessage | Plain plain_value

text \<open>Modelled from the spec: the constructor call \<^verbatim>\<open>GrrMessage(payload=v)\<close>.\<close>

definition GrrMessage_payload :: "plain_value \<Rightarrow> GrrMessage" where
  "GrrMessage_payload v =
     \<lparr>args_rdf_name = Some (class_name v), args = Some (body v), session_id = ''''\<rparr>"

text \<open>\<^verbatim>\<open>rdf_flows.GrrMessage.__name__\<close>: the envelope's own type name.\<close>

definition GrrMessage_name :: string where
  "GrrMessage_name = ''GrrMessage''"

datatype error = ValueError | AttributeError

subsection \<open>The attribute store and the mutation pool\<close>

text \<open>
  Modelled from the spec: the attribute store (\<^verbatim>\<open>grr.lib.data_store\<close>) is missing. It
  holds cells: a row, an attribute name, a value and a timestamp. Access tokens are passed
  to it and not interpreted (authorisation is outside the specification's scope).
\<close>

datatype cell_value = IntValue int | MessageValue GrrMessage

datatype cell = Cell (subject: urn) (attribute: string) (cell_value: cell_value)
  (cell_timestamp: nat)

type_synonym data_store = "cell list"

text \<open>
  Modelled from the spec: \<^verbatim>\<open>data_store.DB.Set\<close> is missing. The spec's
  \<^verbatim>\<open>SetAttribute(rowId, attributeName, value, timestamp)\<close> is "a repeatable, idempotent,
  last-writer-wins point write": it replaces what the row holds under the attribute.
\<close>

definition DB_Set ::
  "urn \<Rightarrow> string \<Rightarrow> cell_value \<Rightarrow> nat \<Rightarrow> token \<Rightarrow> data_store \<Rightarrow> data_store" where
  "DB_Set subj attr v ts tok db =
     filter (\<lambda>c. \<not> (subject c = subj \<and> attribute c = attr)) db @ [Cell subj attr v ts]"

text \<open>
  Modelled from the spec: \<^verbatim>\<open>data_store.DB.ResolveRow\<close> is missing. The spec's
  \<^verbatim>\<open>ScanRowAttributes(rowId)\<close> gives the sequence of (attributeName, value, timestamp)
  of one row.
\<close>

definition DB_ResolveRow ::
  "urn \<Rightarrow> token \<Rightarrow> data_store \<Rightarrow> (string \<times> cell_value \<times> nat) list" where
  "DB_ResolveRow subj tok db =
     map (\<lambda>c. (attribute c, cell_value c, cell_timestamp c))
       (filter (\<lambda>c. subject c = subj) db)"

text \<open>
  Modelled from the spec: \<^verbatim>\<open>data_store.DB.ScanAttribute\<close> is missing. The spec's
  \<^verbatim>\<open>ScanAttributeAcrossRows(attributeName, rowIdPrefix)\<close> gives the sequence of
  (rowId, value, timestamp) of the rows under the prefix that carry the attribute.
\<close>

definition DB_ScanAttribute ::
  "urn \<Rightarrow> string \<Rightarrow> token \<Rightarrow> data_store \<Rightarrow> (urn \<times> cell_value \<times> nat) list" where
  "DB_ScanAttribute subject_prefix attr tok db =
     map (\<lambda>c. (subject c, cell_value c, cell_timestamp c))
       (filter (\<lambda>c. prefix subject_prefix (subject c) \<and> attribute c = attr) db)"

text \<open>
  Modelled from the spec: the mutation pool is missing. It is "a caller-supplied
  write-batching handle": the writes staged so far, in order, none of them applied.
\<close>

type_synonym mutation_pool = "cell list"

text \<open>
  Modelled from the spec: \<^verbatim>\<open>MutationPool.Set\<close> is missing; the write is "staged into
  the batch rather than applied immediately".
\<close>

definition pool_Set ::
  "mutation_pool \<Rightarrow> urn \<Rightarrow> string \<Rightarrow> cell_value \<Rightarrow> nat \<Rightarrow> mutation_pool" where
  "pool_Set pool subj attr v ts = pool @ [Cell subj attr v ts]"

text \<open>
  Modelled from the spec: the clock and the random source are missing. The world a call
  runs in is the store, and what the clock and the random source answer when the sequence
  primitive asks for "the current time" and "a randomly chosen disambiguator".
\<close>

record world =
  store :: data_store
  clock :: nat
  random_suffix :: nat

subsection \<open>The ordered-sequence primitive\<close>

text \<open>
  The module \<^verbatim>\<open>sequential_collection\<close> is missing; the spec gives the interface of its
  ordered-sequence primitive: \<^verbatim>\<open>Append\<close>, \<^verbatim>\<open>Scan\<close> and \<^verbatim>\<open>Length\<close>.
\<close>

text \<open>
  Modelled from the spec: the constant \<^verbatim>\<open>SequentialCollection.ATTRIBUTE\<close> is missing. It
  is "the sequence primitive's own marking attribute", a name outside the namespace of the
  type markers.
\<close>

definition SequentialCollection_ATTRIBUTE :: string where
  "SequentialCollection_ATTRIBUTE = ''aff4:sequential_value''"

type_synonym ordering_key = "nat \<times> nat"

text \<open>
  Modelled from the spec: \<^verbatim>\<open>GrrMessageCollection.StaticAdd\<close> is missing. The spec's
  \<^verbatim>\<open>Append(sequenceId, value, timestamp, suffix, batch?)\<close> returns the ordering key, the
  timestamp defaulting to the current time and the suffix to a random disambiguator, and
  writes to the batch "instead of an immediate store write" when a batch is given. Each
  entry is a row of its own under the sequence's address, carrying the marking attribute.
\<close>

definition GrrMessageCollection_StaticAdd ::
  "urn \<Rightarrow> token \<Rightarrow> GrrMessage \<Rightarrow> nat option \<Rightarrow> nat option \<Rightarrow> mutation_pool option \<Rightarrow> world
     \<Rightarrow> ordering_key \<times> world \<times> mutation_pool option" where
  "GrrMessageCollection_StaticAdd collection_urn tok rdf_value timestamp suffix' mutation_pool w =
     (let ts = (case timestamp of None \<Rightarrow> clock w | Some t \<Rightarrow> t);
          sfx = (case suffix' of None \<Rightarrow> random_suffix w | Some s \<Rightarrow> s);
          result_subject = collection_urn @ [EntryKey ts sfx]
      in case mutation_pool of
           Some pool \<Rightarrow>
             ((ts, sfx), w,
              Some (pool_Set pool result_subject SequentialCollection_ATTRIBUTE
                      (MessageValue rdf_value) ts))
         | None \<Rightarrow>
             ((ts, sfx),
              w\<lparr>store := DB_Set result_subject SequentialCollection_ATTRIBUTE
                           (MessageValue rdf_value) ts tok (store w)\<rparr>,
              None))"

text \<open>
  Modelled from the spec: reading the rows of a sequence back is missing. This is the
  entry a cell holds for the sequence at \<open>seq\<close>, if it holds one.
\<close>

definition entry_of :: "urn \<Rightarrow> cell \<Rightarrow> (ordering_key \<times> GrrMessage) option" where
  "entry_of seq c =
     (if attribute c = SequentialCollection_ATTRIBUTE
      then (case cell_value c of
              MessageValue m \<Rightarrow>
                (case rev (subject c) of
                   EntryKey ts sfx # parent \<Rightarrow>
                     if rev parent = seq then Some ((ts, sfx), m) else None
                 | _ \<Rightarrow> None)
            | IntValue _ \<Rightarrow> None)
      else None)"

text \<open>
  Modelled from the spec: the entries of a sequence, "retrievable in non-decreasing key
  order".
\<close>

definition entries :: "urn \<Rightarrow> data_store \<Rightarrow> (ordering_key \<times> GrrMessage) list" where
  "entries seq db = sort_key fst (List.map_filter (entry_of seq) db)"

text \<open>
  Modelled from the spec: what a scan yields as the key of an item is missing. It is "the
  full (timestamp, suffix) key or only the timestamp component", as \<^verbatim>\<open>include_suffix\<close>
  says.
\<close>

datatype item_key = Timestamp nat | TimestampSuffix nat nat

text \<open>Modelled from the spec: the item a scan yields for an entry.\<close>

definition render_key :: "bool \<Rightarrow> ordering_key \<times> GrrMessage \<Rightarrow> item_key \<times> GrrMessage" where
  "render_key include_suffix e =
     (if include_suffix then TimestampSuffix (fst (fst e)) (snd (fst e))
      else Timestamp (fst (fst e)), snd e)"

text \<open>An AFF4 object, as far as the methods read it: \<^verbatim>\<open>self.urn\<close> and \<^verbatim>\<open>self.token\<close>.\<close>

record aff4_object =
  urn :: urn
  token :: token

text \<open>
  Modelled from the spec: \<^verbatim>\<open>GrrMessageCollection.Scan\<close> is missing. The spec's
  \<^verbatim>\<open>Scan\<close> "produces entries in ascending key order", those after
  \<^verbatim>\<open>after_timestamp\<close> and at most \<^verbatim>\<open>max_records\<close> of them when these are given.
\<close>

definition GrrMessageCollection_Scan ::
  "aff4_object \<Rightarrow> nat option \<Rightarrow> bool \<Rightarrow> nat option \<Rightarrow> world \<Rightarrow> (item_key \<times> GrrMessage) list" where
  "GrrMessageCollection_Scan self after_timestamp include_suffix max_records w =
     (let es = entries (urn self) (store w);
          es1 = (case after_timestamp of None \<Rightarrow> es
                 | Some a \<Rightarrow> filter (\<lambda>e. a < fst (fst e)) es);
          es2 = (case max_records of None \<Rightarrow> es1 | Some n \<Rightarrow> take n es1)
      in map (render_key include_suffix) es2)"

text \<open>
  Modelled from the spec: \<^verbatim>\<open>GrrMessageCollection.__len__\<close> is missing. The spec's
  \<^verbatim>\<open>Length(sequenceId)\<close> is the number of entries, never cached.
\<close>

definition GrrMessageCollection_len :: "aff4_object \<Rightarrow> world \<Rightarrow> nat" where
  "GrrMessageCollection_len self w = length (entries (urn self) (store w))"

text \<open>
  Modelled from the spec: \<^verbatim>\<open>GrrMessageCollection.__iter__\<close> is missing. Iterating a
  sequence is to "fully drain that type's Scan"; the items are pairs of ordering key and
  value.
\<close>

definition GrrMessageCollection_iter :: "aff4_object \<Rightarrow> world \<Rightarrow> (item_key \<times> GrrMessage) list" where
  "GrrMessageCollection_iter self w = GrrMessageCollection_Scan self None True None w"

text \<open>
  Modelled from the spec: \<^verbatim>\<open>aff4.FACTORY.Create\<close> is missing. A per-type sequence "is
  never explicitly created or destroyed as a distinct object": the call gives a handle
  on the address and writes nothing.
\<close>

definition FACTORY_Create :: "urn \<Rightarrow> token \<Rightarrow> aff4_object" where
  "FACTORY_Create u tok = \<lparr>urn = u, token = tok\<rparr>"

subsection \<open>The deletion pool and the base class\<close>

text \<open>
  Modelled from the spec: the deletion pool is missing. Sub-sequence addresses are
  "registered" with it "for eventual physical deletion": it is the list of the addresses
  marked so far.
\<close>

type_synonym deletion_pool = "urn list"

text \<open>
  Modelled from the spec: \<^verbatim>\<open>MarkForDeletion\<close> of the deletion pool is missing; it
  registers one address.
\<close>

definition MarkForDeletion :: "deletion_pool \<Rightarrow> urn \<Rightarrow> deletion_pool" where
  "MarkForDeletion pool u = pool @ [u]"

text \<open>
  Modelled from the spec: \<^verbatim>\<open>aff4.AFF4Object.OnDelete\<close> is missing; the spec gives the
  base class no part in the cascade, so the hook of the base class does nothing.
\<close>

definition AFF4Object_OnDelete :: "aff4_object \<Rightarrow> deletion_pool option \<Rightarrow> deletion_pool option" where
  "AFF4Object_OnDelete self deletion_pool = deletion_pool"

subsection \<open>MultiTypeCollection\<close>

definition VALUE_TYPE_PREFIX :: string where
  "VALUE_TYPE_PREFIX = ''aff4:value_type_''"

text \<open>
  Lines 66-67 of \<^verbatim>\<open>StaticAdd\<close>: a value that is not a GrrMessage is wrapped into one.
\<close>

definition wrap :: "rdf_value \<Rightarrow> GrrMessage" where
  "wrap v = (case v of Message m \<Rightarrow> m | Plain p \<Rightarrow> GrrMessage_payload p)"

text \<open>
  Line 69: \<^verbatim>\<open>rdf_value.args_rdf_name or rdf_flows.GrrMessage.__name__\<close>. Python's
  \<^verbatim>\<open>or\<close> takes the right operand when the left one is \<^verbatim>\<open>None\<close> or the empty string.
\<close>

definition value_type_of :: "GrrMessage \<Rightarrow> string" where
  "value_type_of m =
     (case args_rdf_name m of
        None \<Rightarrow> GrrMessage_name
      | Some n \<Rightarrow> if n = [] then GrrMessage_name else n)"

text \<open>
  \<^verbatim>\<open>StaticAdd\<close>. The result is the outcome (the exception raised, or the value returned,
  \<open>None\<close> being Python's \<^verbatim>\<open>None\<close>), the world and the mutation pool after the
  call. The body ends after the marker write with no \<^verbatim>\<open>return\<close> statement, and the key
  the sequence's \<^verbatim>\<open>StaticAdd\<close> returns is not bound to a name: the call returns
  \<^verbatim>\<open>None\<close>. \<^verbatim>\<open>if mutation_pool:\<close> tests that a pool was given; \<open>pool1\<close> is that
  pool as the sequence's \<^verbatim>\<open>StaticAdd\<close> has left it. The model is of calls
  with no further keyword arguments.
\<close>

definition StaticAdd ::
  "urn \<Rightarrow> token \<Rightarrow> rdf_value option \<Rightarrow> nat option \<Rightarrow> nat option \<Rightarrow> mutation_pool option \<Rightarrow> world
     \<Rightarrow> (error + ordering_key option) \<times> world \<times> mutation_pool option" where
  "StaticAdd collection_urn tok rdf_value timestamp suffix' mutation_pool w =
     (case rdf_value of
        None \<Rightarrow> (Inl ValueError, w, mutation_pool)
      | Some v \<Rightarrow>
          (let rdf_value1 = wrap v;
               value_type = value_type_of rdf_value1;
               subpath = urn_Add collection_urn value_type;
               (key, w1, pool1) =
                  GrrMessageCollection_StaticAdd subpath tok rdf_value1 timestamp suffix'
                    mutation_pool w
           in case mutation_pool of
                Some _ \<Rightarrow>
                  (Inr None, w1,
                   map_option
                     (\<lambda>pool. pool_Set pool collection_urn (VALUE_TYPE_PREFIX @ value_type)
                        (IntValue 1) 0)
                     pool1)
              | None \<Rightarrow>
                  (Inr None,
                   w1\<lparr>store := DB_Set collection_urn (VALUE_TYPE_PREFIX @ value_type)
                                 (IntValue 1) 0 tok (store w1)\<rparr>,
                   pool1)))"

text \<open>
  \<^verbatim>\<open>ListStoredTypes\<close>: the loop over the row's attributes, \<open>res\<close> being the list
  built so far.
\<close>

fun ListStoredTypes_loop :: "(string \<times> cell_value \<times> nat) list \<Rightarrow> string list \<Rightarrow> string list" where
  "ListStoredTypes_loop [] res = res"
| "ListStoredTypes_loop ((attr, _, _) # rest) res =
     ListStoredTypes_loop rest
       (if prefix VALUE_TYPE_PREFIX attr
        then res @ [drop (length VALUE_TYPE_PREFIX) attr] else res)"

definition ListStoredTypes :: "aff4_object \<Rightarrow> world \<Rightarrow> string list" where
  "ListStoredTypes self w =
     ListStoredTypes_loop (DB_ResolveRow (urn self) (token self) (store w)) []"

definition ScanByType ::
  "aff4_object \<Rightarrow> string \<Rightarrow> nat option \<Rightarrow> bool \<Rightarrow> nat option \<Rightarrow> world
     \<Rightarrow> (item_key \<times> GrrMessage) list" where
  "ScanByType self type_name after_timestamp include_suffix max_records w =
     (let sub_collection_urn = urn_Add (urn self) type_name;
          sub_collection = FACTORY_Create sub_collection_urn (token self)
      in GrrMessageCollection_Scan sub_collection after_timestamp include_suffix max_records w)"

definition LengthByType :: "aff4_object \<Rightarrow> string \<Rightarrow> world \<Rightarrow> nat" where
  "LengthByType self type_name w =
     (let sub_collection_urn = urn_Add (urn self) type_name;
          sub_collection = FACTORY_Create sub_collection_urn (token self)
      in GrrMessageCollection_len sub_collection w)"

text \<open>
  \<^verbatim>\<open>Add\<close> passes its keyword arguments on to \<^verbatim>\<open>StaticAdd\<close>; a \<^verbatim>\<open>mutation_pool\<close>
  given to \<^verbatim>\<open>Add\<close> reaches \<^verbatim>\<open>StaticAdd\<close> that way.
\<close>

definition Add ::
  "aff4_object \<Rightarrow> rdf_value option \<Rightarrow> nat option \<Rightarrow> nat option \<Rightarrow> mutation_pool option \<Rightarrow> world
     \<Rightarrow> (error + ordering_key option) \<times> world \<times> mutation_pool option" where
  "Add self rdf_value timestamp suffix' mutation_pool w =
     StaticAdd (urn self) (token self) rdf_value timestamp suffix' mutation_pool w"

text \<open>\<^verbatim>\<open>__iter__\<close>: the items yielded, in the order they are yielded.\<close>

fun iter_loop :: "urn list \<Rightarrow> token \<Rightarrow> world \<Rightarrow> (item_key \<times> GrrMessage) list" where
  "iter_loop [] tok w = []"
| "iter_loop (sub_collection_urn # rest) tok w =
     (let sub_collection = FACTORY_Create sub_collection_urn tok
      in GrrMessageCollection_iter sub_collection w @ iter_loop rest tok w)"

definition iter_MultiTypeCollection :: "aff4_object \<Rightarrow> world \<Rightarrow> (item_key \<times> GrrMessage) list" where
  "iter_MultiTypeCollection self w =
     (let sub_collection_urns = map (urn_Add (urn self)) (ListStoredTypes self w)
      in iter_loop sub_collection_urns (token self) w)"

text \<open>\<^verbatim>\<open>__len__\<close>: the loop adds each sequence's length to \<open>l\<close>.\<close>

fun len_loop :: "urn list \<Rightarrow> token \<Rightarrow> world \<Rightarrow> nat \<Rightarrow> nat" where
  "len_loop [] tok w l = l"
| "len_loop (sub_collection_urn # rest) tok w l =
     (let sub_collection = FACTORY_Create sub_collection_urn tok
      in len_loop rest tok w (l + GrrMessageCollection_len sub_collection w))"

definition len_MultiTypeCollection :: "aff4_object \<Rightarrow> world \<Rightarrow> nat" where
  "len_MultiTypeCollection self w =
     (let sub_collection_urns = map (urn_Add (urn self)) (ListStoredTypes self w)
      in len_loop sub_collection_urns (token self) w 0)"

text \<open>
  \<^verbatim>\<open>OnDelete\<close>: \<^verbatim>\<open>deletion_pool.MarkForDeletion\<close> on a pool that is \<^verbatim>\<open>None\<close> raises
  AttributeError, at the first row the scan yields.
\<close>

fun OnDelete_loop ::
  "(urn \<times> cell_value \<times> nat) list \<Rightarrow> deletion_pool option
     \<Rightarrow> (error + unit) \<times> deletion_pool option" where
  "OnDelete_loop [] deletion_pool = (Inr (), deletion_pool)"
| "OnDelete_loop ((u, _, _) # rest) deletion_pool =
     (case deletion_pool of
        None \<Rightarrow> (Inl AttributeError, None)
      | Some pool \<Rightarrow> OnDelete_loop rest (Some (MarkForDeletion pool u)))"

definition OnDelete ::
  "aff4_object \<Rightarrow> deletion_pool option \<Rightarrow> world \<Rightarrow> (error + unit) \<times> deletion_pool option" where
  "OnDelete self deletion_pool w =
     (let deletion_pool1 = AFF4Object_OnDelete self deletion_pool
      in OnDelete_loop
           (DB_ScanAttribute (urn self) SequentialCollection_ATTRIBUTE (token self) (store w))
           deletion_pool1)"

text \<open>
  A caller adding one value after another to the collection, each call without a
  mutation pool: the world after the last call.
\<close>

fun Add_all :: "aff4_object \<Rightarrow> (rdf_value \<times> nat option \<times> nat option) list \<Rightarrow> world \<Rightarrow> world" where
  "Add_all self [] w = w"
| "Add_all self ((v, timestamp, suffix') # rest) w =
     Add_all self rest (fst (snd (Add self (Some v) timestamp suffix' None w)))"

text \<open>Example inputs: a collection, an empty store, and values of two classes.\<close>

abbreviation (input) example_collection :: aff4_object where
  "example_collection \<equiv> \<lparr>urn = [Name ''c''], token = ''t''\<rparr>"

abbreviation (input) empty_world :: world where
  "empty_world \<equiv> \<lparr>store = [], clock = 7, random_suffix = 9\<rparr>"

abbreviation (input) value_A :: plain_value where
  "value_A \<equiv> \<lparr>class_name = ''A'', body = ''x''\<rparr>"

abbreviation (input) value_B :: plain_value where
  "value_B \<equiv> \<lparr>class_name = ''B'', body = ''z''\<rparr>"

abbreviation (input) bare_message :: GrrMessage where
  "bare_message \<equiv> \<lparr>args_rdf_name = None, args = None, session_id = ''s''\<rparr>"

abbreviation (input) example_world3 :: world where
  "example_world3 \<equiv>
     Add_all example_collection
       [(Plain value_A, Some 100, Some 5),
        (Plain \<lparr>class_name = ''A'', body = ''y''\<rparr>, Some 100, Some 7),
        (Plain value_B, Some 50, None)]
       empty_world"

text \<open>
  The world between the two writes of an add: the entry of a value of class "A" is
  appended, its marker is not written.
\<close>

abbreviation (input) window_world :: world where
  "window_world \<equiv>
     fst (snd (GrrMessageCollection_StaticAdd (urn_Add [Name ''c''] ''A'') ''t''
                 (GrrMessage_payload value_A) (Some 100) (Some 5) None empty_world))"

section \<open>Properties\<close>

subsection \<open>The loops\<close>

lemma len_loop_sum:
  "len_loop us tok w l
     = l + sum_list (map (\<lambda>u. GrrMessageCollection_len (FACTORY_Create u tok) w) us)"
  by (induction us arbitrary: l) (simp_all add: Let_def)

lemma iter_loop_concat:
  "iter_loop us tok w
     = concat (map (\<lambda>u. GrrMessageCollection_iter (FACTORY_Create u tok) w) us)"
  by (induction us) (simp_all add: Let_def)

lemma ListStoredTypes_loop_eq:
  "ListStoredTypes_loop rows res
     = res @ map (drop (length VALUE_TYPE_PREFIX))
               (filter (prefix VALUE_TYPE_PREFIX) (map fst rows))"
  by (induction rows res rule: ListStoredTypes_loop.induct) simp_all

lemma OnDelete_loop_Some:
  "OnDelete_loop rows (Some pool) = (Inr (), Some (pool @ map fst rows))"
  by (induction rows arbitrary: pool) (auto simp: MarkForDeletion_def)

lemma OnDelete_loop_None:
  "rows \<noteq> [] \<Longrightarrow> OnDelete_loop rows None = (Inl AttributeError, None)"
  by (cases rows) auto

subsection \<open>The sequences\<close>

lemma length_GrrMessageCollection_iter:
  "length (GrrMessageCollection_iter sc w) = GrrMessageCollection_len sc w"
  by (simp add: GrrMessageCollection_iter_def GrrMessageCollection_Scan_def
      GrrMessageCollection_len_def)

lemma ScanByType_drain:
  "ScanByType self t None True None w
     = GrrMessageCollection_iter (FACTORY_Create (urn_Add (urn self) t) (token self)) w"
  by (simp add: ScanByType_def GrrMessageCollection_iter_def Let_def)

lemma ScanByType_entries:
  "ScanByType self t None incl None w
     = map (render_key incl) (entries (urn_Add (urn self) t) (store w))"
  by (simp add: ScanByType_def GrrMessageCollection_Scan_def FACTORY_Create_def Let_def)

lemma iter_concat:
  "iter_MultiTypeCollection self w
     = concat (map (\<lambda>t. ScanByType self t None True None w) (ListStoredTypes self w))"
  by (simp add: iter_MultiTypeCollection_def iter_loop_concat ScanByType_drain comp_def Let_def)

text \<open>A cell holds an entry of a sequence exactly when it is a row filed under it.\<close>

lemma entry_of_Some:
  "entry_of seq c = Some e \<longleftrightarrow>
     attribute c = SequentialCollection_ATTRIBUTE
     \<and> cell_value c = MessageValue (snd e)
     \<and> subject c = seq @ [EntryKey (fst (fst e)) (snd (fst e))]"
proof (cases "attribute c = SequentialCollection_ATTRIBUTE")
  case False
  then show ?thesis by (simp add: entry_of_def)
next
  case attr: True
  show ?thesis
  proof (cases "cell_value c")
    case (IntValue i)
    with attr show ?thesis by (simp add: entry_of_def)
  next
    case (MessageValue m)
    show ?thesis
    proof (cases "rev (subject c)")
      case Nil
      with attr MessageValue show ?thesis by (simp add: entry_of_def)
    next
      case (Cons k parent)
      then have subj: "subject c = rev parent @ [k]"
        by (simp add: rev_eq_Cons_iff)
      show ?thesis
      proof (cases k)
        case (Name n)
        with attr MessageValue Cons subj show ?thesis by (simp add: entry_of_def)
      next
        case (EntryKey ts sfx)
        with attr MessageValue Cons subj show ?thesis
          by (cases e) (auto simp: entry_of_def)
      qed
    qed
  qed
qed

lemma set_entries:
  "e \<in> set (entries seq db) \<longleftrightarrow> (\<exists>c \<in> set db. entry_of seq c = Some e)"
proof -
  have "set (List.map_filter f xs) = {y. \<exists>x \<in> set xs. f x = Some y}"
    for f :: "cell \<Rightarrow> (ordering_key \<times> GrrMessage) option" and xs
    by (induction xs) (auto split: option.splits)
  then show ?thesis by (simp add: entries_def)
qed

lemma LengthByType_pos:
  "0 < LengthByType self T w
     \<longleftrightarrow> (\<exists>e. e \<in> set (entries (urn_Add (urn self) T) (store w)))"
proof -
  have "0 < length xs \<longleftrightarrow> (\<exists>e. e \<in> set xs)" for xs :: "(ordering_key \<times> GrrMessage) list"
    by (cases xs) auto
  then show ?thesis
    by (simp add: LengthByType_def GrrMessageCollection_len_def FACTORY_Create_def Let_def)
qed

subsection \<open>The store\<close>

lemma in_set_DB_Set:
  "c \<in> set (DB_Set s a v t tok db)
     \<longleftrightarrow> c = Cell s a v t \<or> (c \<in> set db \<and> \<not> (subject c = s \<and> attribute c = a))"
  by (auto simp: DB_Set_def)

lemma marker_not_ATTRIBUTE: "VALUE_TYPE_PREFIX @ T \<noteq> SequentialCollection_ATTRIBUTE"
  by (simp add: VALUE_TYPE_PREFIX_def SequentialCollection_ATTRIBUTE_def)

text \<open>The types listed are those of the marker attributes on the collection's row.\<close>

lemma set_ListStoredTypes:
  "set (ListStoredTypes self w)
     = {T. \<exists>x t. Cell (urn self) (VALUE_TYPE_PREFIX @ T) x t \<in> set (store w)}"
proof (intro set_eqI iffI)
  fix T assume "T \<in> set (ListStoredTypes self w)"
  then obtain c where c: "c \<in> set (store w)" "subject c = urn self"
    and p: "prefix VALUE_TYPE_PREFIX (attribute c)"
    and T: "T = drop (length VALUE_TYPE_PREFIX) (attribute c)"
    by (auto simp: ListStoredTypes_def ListStoredTypes_loop_eq DB_ResolveRow_def)
  from p T have "attribute c = VALUE_TYPE_PREFIX @ T"
    by (auto simp: prefix_def)
  with c(2) have "c = Cell (urn self) (VALUE_TYPE_PREFIX @ T) (cell_value c) (cell_timestamp c)"
    by (cases c) simp
  with c(1) have "Cell (urn self) (VALUE_TYPE_PREFIX @ T) (cell_value c) (cell_timestamp c)
                    \<in> set (store w)"
    by simp
  then show "T \<in> {T. \<exists>x t. Cell (urn self) (VALUE_TYPE_PREFIX @ T) x t \<in> set (store w)}"
    by blast
next
  fix T assume "T \<in> {T. \<exists>x t. Cell (urn self) (VALUE_TYPE_PREFIX @ T) x t \<in> set (store w)}"
  then obtain x t where "Cell (urn self) (VALUE_TYPE_PREFIX @ T) x t \<in> set (store w)" by blast
  then show "T \<in> set (ListStoredTypes self w)"
    by (force simp: ListStoredTypes_def ListStoredTypes_loop_eq DB_ResolveRow_def image_iff)
qed

text \<open>Writing an entry leaves the list of types as it is.\<close>

lemma ListStoredTypes_after_entry_write:
  "ListStoredTypes self
     (w\<lparr>store := DB_Set row SequentialCollection_ATTRIBUTE x t tok (store w)\<rparr>)
   = ListStoredTypes self w"
proof -
  have np: "\<not> prefix VALUE_TYPE_PREFIX SequentialCollection_ATTRIBUTE"
    by (simp add: VALUE_TYPE_PREFIX_def SequentialCollection_ATTRIBUTE_def)
  have "filter (prefix VALUE_TYPE_PREFIX)
          (map attribute (filter (\<lambda>c. subject c = s)
             (filter (\<lambda>c. \<not> (subject c = row \<and> attribute c = SequentialCollection_ATTRIBUTE))
                db)))
        = filter (prefix VALUE_TYPE_PREFIX) (map attribute (filter (\<lambda>c. subject c = s) db))"
    for s db
    using np by (induction db) auto
  with np show ?thesis
    by (simp add: ListStoredTypes_def ListStoredTypes_loop_eq DB_ResolveRow_def DB_Set_def
        comp_def)
qed

subsection \<open>The two paths of StaticAdd\<close>

lemma StaticAdd_direct:
  "StaticAdd u tok (Some v) timestamp sfx None w =
     (Inr None,
      w\<lparr>store :=
          DB_Set u (VALUE_TYPE_PREFIX @ value_type_of (wrap v)) (IntValue 1) 0 tok
            (DB_Set (urn_Add u (value_type_of (wrap v))
                       @ [EntryKey (case timestamp of None \<Rightarrow> clock w | Some t \<Rightarrow> t)
                            (case sfx of None \<Rightarrow> random_suffix w | Some s \<Rightarrow> s)])
               SequentialCollection_ATTRIBUTE (MessageValue (wrap v))
               (case timestamp of None \<Rightarrow> clock w | Some t \<Rightarrow> t) tok (store w))\<rparr>,
      None)"
  by (simp add: StaticAdd_def GrrMessageCollection_StaticAdd_def Let_def)

lemma StaticAdd_pooled:
  "StaticAdd u tok (Some v) timestamp sfx (Some pool) w =
     (Inr None, w,
      Some (pool @
        [Cell (urn_Add u (value_type_of (wrap v))
                 @ [EntryKey (case timestamp of None \<Rightarrow> clock w | Some t \<Rightarrow> t)
                      (case sfx of None \<Rightarrow> random_suffix w | Some s \<Rightarrow> s)])
           SequentialCollection_ATTRIBUTE (MessageValue (wrap v))
           (case timestamp of None \<Rightarrow> clock w | Some t \<Rightarrow> t),
         Cell u (VALUE_TYPE_PREFIX @ value_type_of (wrap v)) (IntValue 1) 0]))"
  by (simp add: StaticAdd_def GrrMessageCollection_StaticAdd_def pool_Set_def Let_def)

lemma entry_in_store_after_StaticAdd:
  "Cell (urn_Add u (value_type_of (wrap v))
           @ [EntryKey (case timestamp of None \<Rightarrow> clock w | Some t \<Rightarrow> t)
                (case sfx of None \<Rightarrow> random_suffix w | Some s \<Rightarrow> s)])
      SequentialCollection_ATTRIBUTE (MessageValue (wrap v))
      (case timestamp of None \<Rightarrow> clock w | Some t \<Rightarrow> t)
   \<in> set (store (fst (snd (StaticAdd u tok (Some v) timestamp sfx None w))))"
  by (simp add: StaticAdd_direct in_set_DB_Set marker_not_ATTRIBUTE [symmetric])

lemma marker_in_store_after_StaticAdd:
  "Cell u (VALUE_TYPE_PREFIX @ value_type_of (wrap v)) (IntValue 1) 0
   \<in> set (store (fst (snd (StaticAdd u tok (Some v) timestamp sfx None w))))"
  by (simp add: StaticAdd_direct in_set_DB_Set)

lemma marker_kept_by_StaticAdd:
  assumes "Cell s (VALUE_TYPE_PREFIX @ T) x t \<in> set (store w)"
  shows "\<exists>x' t'. Cell s (VALUE_TYPE_PREFIX @ T) x' t'
            \<in> set (store (fst (snd (StaticAdd u tok (Some v) timestamp sfx None w))))"
proof (cases "s = u \<and> T = value_type_of (wrap v)")
  case True
  then show ?thesis using marker_in_store_after_StaticAdd [of u v tok timestamp sfx w] by blast
next
  case False
  with assms have "Cell s (VALUE_TYPE_PREFIX @ T) x t
            \<in> set (store (fst (snd (StaticAdd u tok (Some v) timestamp sfx None w))))"
    by (auto simp: StaticAdd_direct in_set_DB_Set marker_not_ATTRIBUTE)
  then show ?thesis by blast
qed

lemma stored_type_kept_by_StaticAdd:
  "T \<in> set (ListStoredTypes self w)
   \<Longrightarrow> T \<in> set (ListStoredTypes self
                  (fst (snd (StaticAdd u tok (Some v) timestamp sfx None w))))"
  unfolding set_ListStoredTypes using marker_kept_by_StaticAdd by blast

lemma stored_type_after_StaticAdd:
  "value_type_of (wrap v)
     \<in> set (ListStoredTypes self
              (fst (snd (StaticAdd (urn self) tok (Some v) timestamp sfx None w))))"
  unfolding set_ListStoredTypes using marker_in_store_after_StaticAdd by blast

lemma stored_type_kept_by_Add_all:
  "T \<in> set (ListStoredTypes self w) \<Longrightarrow> T \<in> set (ListStoredTypes self (Add_all self calls w))"
proof (induction calls arbitrary: w)
  case Nil
  then show ?case by simp
next
  case (Cons call calls)
  obtain v timestamp sfx where call: "call = (v, timestamp, sfx)" by (cases call) auto
  from Cons.prems show ?case
    unfolding call by (simp add: Add_def Cons.IH stored_type_kept_by_StaticAdd)
qed

text \<open>
  Every type with an entry is listed: the property is kept by an add to any collection.
\<close>

lemma invariant_kept_by_StaticAdd:
  assumes inv: "\<forall>T. 0 < LengthByType self T w \<longrightarrow> T \<in> set (ListStoredTypes self w)"
  shows "\<forall>T. 0 < LengthByType self T (fst (snd (StaticAdd u tok (Some v) timestamp sfx None w)))
           \<longrightarrow> T \<in> set (ListStoredTypes self
                         (fst (snd (StaticAdd u tok (Some v) timestamp sfx None w))))"
proof (intro allI impI)
  let ?w' = "fst (snd (StaticAdd u tok (Some v) timestamp sfx None w))"
  let ?row = "urn_Add u (value_type_of (wrap v))
                @ [EntryKey (case timestamp of None \<Rightarrow> clock w | Some t \<Rightarrow> t)
                     (case sfx of None \<Rightarrow> random_suffix w | Some s \<Rightarrow> s)]"
  fix T assume "0 < LengthByType self T ?w'"
  then obtain c e where c: "c \<in> set (store ?w')"
    and e: "entry_of (urn_Add (urn self) T) c = Some e"
    unfolding LengthByType_pos set_entries by blast
  from e have attr: "attribute c = SequentialCollection_ATTRIBUTE"
    and subj: "subject c = urn_Add (urn self) T @ [EntryKey (fst (fst e)) (snd (fst e))]"
    by (simp_all add: entry_of_Some)
  from c attr consider (new) "subject c = ?row" | (old) "c \<in> set (store w)"
    by (auto simp: StaticAdd_direct in_set_DB_Set marker_not_ATTRIBUTE)
  then show "T \<in> set (ListStoredTypes self ?w')"
  proof cases
    case new
    with subj have "urn self = u" and "T = value_type_of (wrap v)"
      by (simp_all add: urn_Add_def)
    then show ?thesis
      using stored_type_after_StaticAdd [of v self tok timestamp sfx w] by simp
  next
    case old
    with e have "0 < LengthByType self T w"
      unfolding LengthByType_pos set_entries by blast
    with inv have "T \<in> set (ListStoredTypes self w)" by blast
    then show ?thesis by (rule stored_type_kept_by_StaticAdd)
  qed
qed

lemma invariant_kept_by_Add_all:
  "\<forall>T. 0 < LengthByType self T w \<longrightarrow> T \<in> set (ListStoredTypes self w)
   \<Longrightarrow> \<forall>T. 0 < LengthByType self T (Add_all self calls w)
             \<longrightarrow> T \<in> set (ListStoredTypes self (Add_all self calls w))"
proof (induction calls arbitrary: w)
  case Nil
  then show ?case by simp
next
  case (Cons call calls)
  obtain v timestamp sfx where call: "call = (v, timestamp, sfx)" by (cases call) auto
  show ?case
    unfolding call Add_all.simps Add_def
    by (rule Cons.IH) (rule invariant_kept_by_StaticAdd [OF Cons.prems])
qed

lemma no_entries_in_empty_store:
  "LengthByType self T \<lparr>store = [], clock = c, random_suffix = r\<rparr> = 0"
  by (simp add: LengthByType_def GrrMessageCollection_len_def entries_def Let_def)

lemmas model_defs =
  Add_def StaticAdd_def GrrMessageCollection_StaticAdd_def wrap_def value_type_of_def
  GrrMessage_payload_def GrrMessage_name_def urn_Add_def DB_Set_def pool_Set_def
  VALUE_TYPE_PREFIX_def SequentialCollection_ATTRIBUTE_def ListStoredTypes_def
  DB_ResolveRow_def DB_ScanAttribute_def FACTORY_Create_def GrrMessageCollection_len_def
  GrrMessageCollection_Scan_def GrrMessageCollection_iter_def ScanByType_def LengthByType_def
  len_MultiTypeCollection_def iter_MultiTypeCollection_def entries_def entry_of_def
  render_key_def OnDelete_def AFF4Object_OnDelete_def MarkForDeletion_def Let_def

subsection \<open>The value returned by Add\<close>

text \<open>
  C1. The docstrings of \<^verbatim>\<open>StaticAdd\<close> and \<^verbatim>\<open>Add\<close> promise the pair (timestamp, suffix)
  that identifies the value. At the call that adds a value of type "A" with timestamp 100
  and suffix 5 to an empty store, the sequence's own \<^verbatim>\<open>StaticAdd\<close> computes the key
  (100, 5), and both \<^verbatim>\<open>StaticAdd\<close> and \<^verbatim>\<open>Add\<close> of the collection return \<^verbatim>\<open>None\<close>:
  the key is dropped.
\<close>

theorem Add_drops_ordering_key:
  "fst (Add example_collection (Some (Plain value_A)) (Some 100) (Some 5) None empty_world)
     = Inr None
   \<and> fst (StaticAdd [Name ''c''] ''t'' (Some (Plain value_A)) (Some 100) (Some 5) None
            empty_world)
     = Inr None
   \<and> fst (GrrMessageCollection_StaticAdd (urn_Add [Name ''c''] ''A'') ''t''
            (wrap (Plain value_A)) (Some 100) (Some 5) None empty_world)
     = (100, 5)"
  by (simp add: Add_def StaticAdd_def GrrMessageCollection_StaticAdd_def Let_def)

subsection \<open>Routing\<close>

text \<open>
  C2. A value that is not \<^verbatim>\<open>None\<close>, added without a mutation pool, is stored as its
  envelope (itself when it is a GrrMessage, wrapped when it is not) in the sequence named
  by the envelope's payload type name, or by "GrrMessage" when the envelope names no
  payload type. \<^verbatim>\<open>ScanByType\<close> with that type name, on the world after the add, yields
  the entries of that sequence in ascending key order, the envelope under the key of the
  add among them.
\<close>

theorem Add_then_ScanByType:
  "(\<exists>es. ScanByType self (value_type_of (wrap v)) None include_suffix None
            (fst (snd (Add self (Some v) timestamp sfx None w)))
          = map (render_key include_suffix) es
        \<and> sorted (map fst es)
        \<and> (fst (GrrMessageCollection_StaticAdd (urn_Add (urn self) (value_type_of (wrap v)))
                  (token self) (wrap v) timestamp sfx None w), wrap v) \<in> set es)
   \<and> (\<forall>m. v = Message m \<longrightarrow> wrap v = m)
   \<and> (\<forall>p. v = Plain p \<longrightarrow> wrap v = GrrMessage_payload p
          \<and> args_rdf_name (wrap v) = Some (class_name p))
   \<and> (\<forall>n. args_rdf_name (wrap v) = Some n \<and> n \<noteq> [] \<longrightarrow> value_type_of (wrap v) = n)
   \<and> (args_rdf_name (wrap v) = None \<or> args_rdf_name (wrap v) = Some []
        \<longrightarrow> value_type_of (wrap v) = GrrMessage_name)"
proof (intro conjI allI impI)
  let ?T = "value_type_of (wrap v)"
  let ?w' = "fst (snd (Add self (Some v) timestamp sfx None w))"
  let ?es = "entries (urn_Add (urn self) ?T) (store ?w')"
  let ?key = "fst (GrrMessageCollection_StaticAdd (urn_Add (urn self) ?T)
                  (token self) (wrap v) timestamp sfx None w)"
  have key: "?key = (case timestamp of None \<Rightarrow> clock w | Some t \<Rightarrow> t,
                     case sfx of None \<Rightarrow> random_suffix w | Some s \<Rightarrow> s)"
    by (simp add: GrrMessageCollection_StaticAdd_def Let_def)
  have "Cell (urn_Add (urn self) ?T @ [EntryKey (fst ?key) (snd ?key)])
          SequentialCollection_ATTRIBUTE (MessageValue (wrap v)) (fst ?key) \<in> set (store ?w')"
    unfolding key Add_def fst_conv snd_conv by (rule entry_in_store_after_StaticAdd)
  moreover have "entry_of (urn_Add (urn self) ?T)
          (Cell (urn_Add (urn self) ?T @ [EntryKey (fst ?key) (snd ?key)])
            SequentialCollection_ATTRIBUTE (MessageValue (wrap v)) (fst ?key))
        = Some (?key, wrap v)"
    by (simp add: entry_of_Some)
  ultimately have "(?key, wrap v) \<in> set ?es"
    unfolding set_entries by blast
  moreover have "sorted (map fst ?es)"
    by (simp add: entries_def)
  moreover have "ScanByType self ?T None include_suffix None ?w'
                   = map (render_key include_suffix) ?es"
    by (rule ScanByType_entries)
  ultimately show "\<exists>es. ScanByType self ?T None include_suffix None ?w'
          = map (render_key include_suffix) es
        \<and> sorted (map fst es) \<and> (?key, wrap v) \<in> set es"
    by blast
qed (auto simp: wrap_def value_type_of_def GrrMessage_payload_def)

text \<open>
  Two instances. A value of class "A" added at (100, 5) is found, wrapped, by a scan of
  type "A"; a GrrMessage that names no payload type is found, as it is, by a scan of type
  "GrrMessage".
\<close>

theorem Add_then_ScanByType_witness:
  "(Timestamp 100, GrrMessage_payload value_A)
     \<in> set (ScanByType example_collection ''A'' None False None
              (fst (snd (Add example_collection (Some (Plain value_A)) (Some 100) (Some 5) None
                           empty_world))))
   \<and> (TimestampSuffix 100 5, bare_message)
     \<in> set (ScanByType example_collection ''GrrMessage'' None True None
              (fst (snd (Add example_collection (Some (Message bare_message)) (Some 100)
                           (Some 5) None empty_world))))"
proof
  from Add_then_ScanByType [of example_collection "Plain value_A" False "Some 100" "Some 5"
      empty_world]
  obtain es where
    "ScanByType example_collection (value_type_of (wrap (Plain value_A))) None False None
       (fst (snd (Add example_collection (Some (Plain value_A)) (Some 100) (Some 5) None
                    empty_world)))
     = map (render_key False) es"
    and "(fst (GrrMessageCollection_StaticAdd
                (urn_Add (urn example_collection) (value_type_of (wrap (Plain value_A))))
                (token example_collection) (wrap (Plain value_A)) (Some 100) (Some 5) None
                empty_world), wrap (Plain value_A)) \<in> set es"
    by blast
  then show "(Timestamp 100, GrrMessage_payload value_A)
     \<in> set (ScanByType example_collection ''A'' None False None
              (fst (snd (Add example_collection (Some (Plain value_A)) (Some 100) (Some 5) None
                           empty_world))))"
    by (force simp: wrap_def value_type_of_def GrrMessage_payload_def render_key_def
        GrrMessageCollection_StaticAdd_def Let_def image_iff)
next
  from Add_then_ScanByType [of example_collection "Message bare_message" True "Some 100"
      "Some 5" empty_world]
  obtain es where
    "ScanByType example_collection (value_type_of (wrap (Message bare_message))) None True None
       (fst (snd (Add example_collection (Some (Message bare_message)) (Some 100) (Some 5) None
                    empty_world)))
     = map (render_key True) es"
    and "(fst (GrrMessageCollection_StaticAdd
                (urn_Add (urn example_collection) (value_type_of (wrap (Message bare_message))))
                (token example_collection) (wrap (Message bare_message)) (Some 100) (Some 5)
                None empty_world), wrap (Message bare_message)) \<in> set es"
    by blast
  then show "(TimestampSuffix 100 5, bare_message)
     \<in> set (ScanByType example_collection ''GrrMessage'' None True None
              (fst (snd (Add example_collection (Some (Message bare_message)) (Some 100)
                           (Some 5) None empty_world))))"
    by (force simp: wrap_def value_type_of_def GrrMessage_name_def render_key_def
        GrrMessageCollection_StaticAdd_def Let_def image_iff)
qed

subsection \<open>Counting\<close>

text \<open>
  C3. In every world, \<^verbatim>\<open>__len__\<close> is the sum of \<^verbatim>\<open>LengthByType\<close> over the list
  \<^verbatim>\<open>ListStoredTypes\<close> returns, and is the number of items \<^verbatim>\<open>__iter__\<close> yields. It is a
  function of the collection's address and the store alone: nothing is kept between calls.
\<close>

theorem len_is_sum_and_iter_count:
  "len_MultiTypeCollection self w
     = sum_list (map (\<lambda>t. LengthByType self t w) (ListStoredTypes self w))
   \<and> len_MultiTypeCollection self w = length (iter_MultiTypeCollection self w)"
  by (simp add: len_MultiTypeCollection_def iter_MultiTypeCollection_def LengthByType_def
      len_loop_sum iter_loop_concat length_concat length_GrrMessageCollection_iter comp_def
      Let_def)

text \<open>
  An instance: after two values of type "A" and one of type "B", the count is 3, and so
  are the sum over the types and the number of items iterated.
\<close>

theorem len_is_sum_and_iter_count_witness:
  "sum_list (map (\<lambda>t. LengthByType example_collection t example_world3)
       (ListStoredTypes example_collection example_world3)) = 3
   \<and> length (iter_MultiTypeCollection example_collection example_world3) = 3"
proof -
  have "len_MultiTypeCollection example_collection example_world3 = 3"
    by (simp add: model_defs)
  with len_is_sum_and_iter_count [of example_collection example_world3]
  show ?thesis by simp
qed

subsection \<open>Rejection of None\<close>

text \<open>
  C4. \<^verbatim>\<open>StaticAdd\<close> and \<^verbatim>\<open>Add\<close> called with \<^verbatim>\<open>None\<close> as the value raise ValueError
  and leave the world and the mutation pool as they were: nothing is appended, no marker
  is written, nothing is staged.
\<close>

theorem Add_None_raises:
  "StaticAdd collection_urn tok None timestamp sfx mutation_pool w
     = (Inl ValueError, w, mutation_pool)
   \<and> Add self None timestamp sfx mutation_pool w = (Inl ValueError, w, mutation_pool)"
  by (simp add: StaticAdd_def Add_def)

theorem Add_None_raises_witness:
  "StaticAdd [Name ''c''] ''t'' None (Some 100) (Some 5) (Some []) example_world3
     = (Inl ValueError, example_world3, Some [])
   \<and> Add example_collection None (Some 100) (Some 5) None example_world3
     = (Inl ValueError, example_world3, None)"
  using Add_None_raises [of "[Name ''c'']" "''t''" "Some 100" "Some 5" "Some []" example_world3]
    Add_None_raises [of "[Name ''c'']" "''t''" "Some 100" "Some 5" None example_world3
      example_collection]
  by simp

subsection \<open>Discovery of the stored types\<close>

text \<open>
  C5. \<^verbatim>\<open>ListStoredTypes\<close> returns the type name \<open>T\<close> exactly for the marker
  attributes \<^verbatim>\<open>VALUE_TYPE_PREFIX + T\<close> on the collection's row: stripping the prefix undoes
  prepending it. So after any sequence of adds to the collection (each without a mutation
  pool, its marker write done), the type of every value added is among the types listed,
  whatever the order of the adds.
\<close>

theorem ListStoredTypes_complete:
  "set (ListStoredTypes self w)
     = {T. \<exists>x t. Cell (urn self) (VALUE_TYPE_PREFIX @ T) x t \<in> set (store w)}
   \<and> (\<forall>(v, timestamp, sfx) \<in> set calls.
        value_type_of (wrap v) \<in> set (ListStoredTypes self (Add_all self calls w)))"
proof
  show "set (ListStoredTypes self w)
     = {T. \<exists>x t. Cell (urn self) (VALUE_TYPE_PREFIX @ T) x t \<in> set (store w)}"
    by (rule set_ListStoredTypes)
next
  show "\<forall>(v, timestamp, sfx) \<in> set calls.
        value_type_of (wrap v) \<in> set (ListStoredTypes self (Add_all self calls w))"
  proof (induction calls arbitrary: w)
    case Nil
    then show ?case by simp
  next
    case (Cons call calls)
    obtain v timestamp sfx where call: "call = (v, timestamp, sfx)" by (cases call) auto
    have "value_type_of (wrap v) \<in> set (ListStoredTypes self (Add_all self (call # calls) w))"
      unfolding call
      by (simp add: Add_def stored_type_kept_by_Add_all stored_type_after_StaticAdd)
    with Cons.IH [of "fst (snd (Add self (Some v) timestamp sfx None w))"]
    show ?case unfolding call by simp
  qed
qed

text \<open>An instance: "B" added before "A"; both are listed afterwards.\<close>

theorem ListStoredTypes_complete_witness:
  "''A'' \<in> set (ListStoredTypes example_collection
                  (Add_all example_collection
                     [(Plain value_B, Some 50, None), (Plain value_A, Some 100, Some 5)]
                     empty_world))
   \<and> ''B'' \<in> set (ListStoredTypes example_collection
                  (Add_all example_collection
                     [(Plain value_B, Some 50, None), (Plain value_A, Some 100, Some 5)]
                     empty_world))"
  using ListStoredTypes_complete [of example_collection empty_world
      "[(Plain value_B, Some 50, None), (Plain value_A, Some 100, Some 5)]"]
  by (simp add: wrap_def value_type_of_def GrrMessage_payload_def)

subsection \<open>Iteration\<close>

text \<open>
  C6. \<^verbatim>\<open>__iter__\<close> yields, for each type in the order \<^verbatim>\<open>ListStoredTypes\<close> returns them,
  all the entries of that type's sequence, in the sequence's key order, before it goes on
  to the next type. So whenever a type \<open>A\<close> is listed before a type \<open>B\<close>, the
  entries of \<open>A\<close> come as one block before the block of the entries of \<open>B\<close>,
  whatever their timestamps.
\<close>

theorem iter_drains_each_type_in_turn:
  "iter_MultiTypeCollection self w
     = concat (map (\<lambda>t. map (render_key True) (entries (urn_Add (urn self) t) (store w)))
         (ListStoredTypes self w))
   \<and> (\<forall>t. sorted (map fst (entries (urn_Add (urn self) t) (store w))))
   \<and> (\<forall>before A between B after.
        ListStoredTypes self w = before @ A # between @ B # after \<longrightarrow>
        (\<exists>pre mid post.
           iter_MultiTypeCollection self w
             = pre @ map (render_key True) (entries (urn_Add (urn self) A) (store w))
                 @ mid @ map (render_key True) (entries (urn_Add (urn self) B) (store w))
                 @ post))"
proof (intro conjI allI impI)
  show "iter_MultiTypeCollection self w
     = concat (map (\<lambda>t. map (render_key True) (entries (urn_Add (urn self) t) (store w)))
         (ListStoredTypes self w))"
    by (simp add: iter_concat ScanByType_entries)
next
  fix t show "sorted (map fst (entries (urn_Add (urn self) t) (store w)))"
    by (simp add: entries_def)
next
  fix before A between B after
  assume split: "ListStoredTypes self w = before @ A # between @ B # after"
  let ?block = "\<lambda>t. map (render_key True) (entries (urn_Add (urn self) t) (store w))"
  have "iter_MultiTypeCollection self w
          = concat (map ?block before) @ ?block A @ concat (map ?block between)
              @ ?block B @ concat (map ?block after)"
    by (simp add: iter_concat ScanByType_entries split)
  then show "\<exists>pre mid post. iter_MultiTypeCollection self w
             = pre @ ?block A @ mid @ ?block B @ post"
    by blast
qed

text \<open>
  An instance: "A" is listed before "B"; the two entries of "A", at timestamp 100, are
  yielded before the entry of "B", at timestamp 50.
\<close>

theorem iter_drains_each_type_in_turn_witness:
  "ListStoredTypes example_collection example_world3 = [] @ ''A'' # [] @ ''B'' # []
   \<and> iter_MultiTypeCollection example_collection example_world3
       = [(TimestampSuffix 100 5, GrrMessage_payload value_A),
          (TimestampSuffix 100 7, GrrMessage_payload \<lparr>class_name = ''A'', body = ''y''\<rparr>),
          (TimestampSuffix 50 9, GrrMessage_payload value_B)]
   \<and> (\<exists>pre mid post.
        iter_MultiTypeCollection example_collection example_world3
          = pre @ map (render_key True)
                    (entries (urn_Add (urn example_collection) ''A'') (store example_world3))
              @ mid @ map (render_key True)
                    (entries (urn_Add (urn example_collection) ''B'') (store example_world3))
              @ post)"
proof -
  have types: "ListStoredTypes example_collection example_world3 = [] @ ''A'' # [] @ ''B'' # []"
    by (simp add: model_defs)
  have blocks: "concat (map (\<lambda>t. map (render_key True)
                   (entries (urn_Add (urn example_collection) t) (store example_world3)))
                   [''A'', ''B''])
       = [(TimestampSuffix 100 5, GrrMessage_payload value_A),
          (TimestampSuffix 100 7, GrrMessage_payload \<lparr>class_name = ''A'', body = ''y''\<rparr>),
          (TimestampSuffix 50 9, GrrMessage_payload value_B)]"
    by (simp add: model_defs)
  note inst = iter_drains_each_type_in_turn [of example_collection example_world3]
  from inst types blocks have "iter_MultiTypeCollection example_collection example_world3
       = [(TimestampSuffix 100 5, GrrMessage_payload value_A),
          (TimestampSuffix 100 7, GrrMessage_payload \<lparr>class_name = ''A'', body = ''y''\<rparr>),
          (TimestampSuffix 50 9, GrrMessage_payload value_B)]"
    by simp
  moreover from inst types have "\<exists>pre mid post.
        iter_MultiTypeCollection example_collection example_world3
          = pre @ map (render_key True)
                    (entries (urn_Add (urn example_collection) ''A'') (store example_world3))
              @ mid @ map (render_key True)
                    (entries (urn_Add (urn example_collection) ''B'') (store example_world3))
              @ post"
    by blast
  ultimately show ?thesis using types by blast
qed

subsection \<open>The marker write\<close>

text \<open>
  C7. For every value that is not \<^verbatim>\<open>None\<close>, with \<open>T\<close> its type name, and for
  \<^verbatim>\<open>StaticAdd\<close> at any address as for \<^verbatim>\<open>Add\<close> on any collection (\<^verbatim>\<open>Add\<close> is
  \<^verbatim>\<open>StaticAdd\<close> at the collection's own address and token):
  \<^item> without a mutation pool, the store after the add holds the marker \<^verbatim>\<open>VALUE_TYPE_PREFIX + T\<close>
    on the collection's row with value 1 and timestamp 0, whatever the entry's timestamp;
  \<^item> with a mutation pool, the world is left as it is and the marker is staged with value 1
    and timestamp 0, after the entry;
  \<^item> the marker is written onto the store the entry append has left: in the world between
    the two writes the entry is there and the list of types is still the one before the add;
  \<^item> so the property that every type with at least one entry is listed is kept by every
    completed add, to any collection, and holds in every world reached from the empty
    store by completed adds.
\<close>

theorem marker_written_after_entry:
  "Cell u (VALUE_TYPE_PREFIX @ value_type_of (wrap v)) (IntValue 1) 0
     \<in> set (store (fst (snd (StaticAdd u tok (Some v) timestamp sfx None w))))
   \<and> (\<exists>entry. snd (snd (StaticAdd u tok (Some v) timestamp sfx (Some pool) w))
         = Some (pool @ [entry, Cell u (VALUE_TYPE_PREFIX @ value_type_of (wrap v)) (IntValue 1) 0])
       \<and> attribute entry = SequentialCollection_ATTRIBUTE
       \<and> cell_value entry = MessageValue (wrap v))
   \<and> store (fst (snd (StaticAdd u tok (Some v) timestamp sfx None w)))
       = DB_Set u (VALUE_TYPE_PREFIX @ value_type_of (wrap v)) (IntValue 1) 0 tok
           (store (fst (snd (GrrMessageCollection_StaticAdd (urn_Add u (value_type_of (wrap v)))
                               tok (wrap v) timestamp sfx None w))))
   \<and> ListStoredTypes self
         (fst (snd (GrrMessageCollection_StaticAdd (urn_Add u (value_type_of (wrap v)))
                      tok (wrap v) timestamp sfx None w)))
       = ListStoredTypes self w
   \<and> 0 < LengthByType \<lparr>urn = u, token = tok\<rparr> (value_type_of (wrap v))
         (fst (snd (GrrMessageCollection_StaticAdd (urn_Add u (value_type_of (wrap v)))
                      tok (wrap v) timestamp sfx None w)))
   \<and> ((\<forall>T. 0 < LengthByType self T w \<longrightarrow> T \<in> set (ListStoredTypes self w))
       \<longrightarrow> (\<forall>T. 0 < LengthByType self T (fst (snd (StaticAdd u tok (Some v) timestamp sfx None w)))
              \<longrightarrow> T \<in> set (ListStoredTypes self
                            (fst (snd (StaticAdd u tok (Some v) timestamp sfx None w))))))
   \<and> (\<forall>T. 0 < LengthByType self T
               (Add_all self calls \<lparr>store = [], clock = c, random_suffix = r\<rparr>)
         \<longrightarrow> T \<in> set (ListStoredTypes self
                        (Add_all self calls \<lparr>store = [], clock = c, random_suffix = r\<rparr>)))
   \<and> Add adder rdf_value timestamp sfx mutation_pool w
       = StaticAdd (urn adder) (token adder) rdf_value timestamp sfx mutation_pool w
   \<and> Cell (urn adder) (VALUE_TYPE_PREFIX @ value_type_of (wrap v)) (IntValue 1) 0
       \<in> set (store (fst (snd (Add adder (Some v) timestamp sfx None w))))
   \<and> (\<exists>entry. Add adder (Some v) timestamp sfx (Some pool) w
         = (Inr None, w,
            Some (pool @ [entry, Cell (urn adder) (VALUE_TYPE_PREFIX @ value_type_of (wrap v))
                                   (IntValue 1) 0]))
       \<and> attribute entry = SequentialCollection_ATTRIBUTE
       \<and> cell_value entry = MessageValue (wrap v))
   \<and> store (fst (snd (Add adder (Some v) timestamp sfx None w)))
       = DB_Set (urn adder) (VALUE_TYPE_PREFIX @ value_type_of (wrap v)) (IntValue 1) 0
           (token adder)
           (store (fst (snd (GrrMessageCollection_StaticAdd
                               (urn_Add (urn adder) (value_type_of (wrap v))) (token adder)
                               (wrap v) timestamp sfx None w))))
   \<and> ((\<forall>T. 0 < LengthByType self T w \<longrightarrow> T \<in> set (ListStoredTypes self w))
       \<longrightarrow> (\<forall>T. 0 < LengthByType self T (fst (snd (Add adder (Some v) timestamp sfx None w)))
              \<longrightarrow> T \<in> set (ListStoredTypes self
                            (fst (snd (Add adder (Some v) timestamp sfx None w))))))"
proof (intro conjI)
  let ?T = "value_type_of (wrap v)"
  let ?w1 = "fst (snd (GrrMessageCollection_StaticAdd (urn_Add u ?T) tok (wrap v) timestamp sfx
                         None w))"
  let ?ts = "case timestamp of None \<Rightarrow> clock w | Some t \<Rightarrow> t"
  let ?sfx = "case sfx of None \<Rightarrow> random_suffix w | Some s \<Rightarrow> s"
  let ?entry = "Cell (urn_Add u ?T @ [EntryKey ?ts ?sfx]) SequentialCollection_ATTRIBUTE
                  (MessageValue (wrap v)) ?ts"
  have w1: "?w1 = w\<lparr>store := DB_Set (urn_Add u ?T @ [EntryKey ?ts ?sfx])
                     SequentialCollection_ATTRIBUTE (MessageValue (wrap v)) ?ts tok (store w)\<rparr>"
    by (simp add: GrrMessageCollection_StaticAdd_def Let_def)
  show "Cell u (VALUE_TYPE_PREFIX @ ?T) (IntValue 1) 0
     \<in> set (store (fst (snd (StaticAdd u tok (Some v) timestamp sfx None w))))"
    by (rule marker_in_store_after_StaticAdd)
  show "\<exists>entry. snd (snd (StaticAdd u tok (Some v) timestamp sfx (Some pool) w))
         = Some (pool @ [entry, Cell u (VALUE_TYPE_PREFIX @ ?T) (IntValue 1) 0])
       \<and> attribute entry = SequentialCollection_ATTRIBUTE
       \<and> cell_value entry = MessageValue (wrap v)"
    by (rule exI [of _ ?entry]) (simp add: StaticAdd_pooled)
  show "store (fst (snd (StaticAdd u tok (Some v) timestamp sfx None w)))
       = DB_Set u (VALUE_TYPE_PREFIX @ ?T) (IntValue 1) 0 tok (store ?w1)"
    by (simp add: StaticAdd_direct w1)
  show "ListStoredTypes self ?w1 = ListStoredTypes self w"
    unfolding w1 by (rule ListStoredTypes_after_entry_write)
  have "?entry \<in> set (store ?w1)"
    by (simp add: w1 in_set_DB_Set)
  moreover have "entry_of (urn_Add u ?T) ?entry = Some ((?ts, ?sfx), wrap v)"
    by (simp add: entry_of_Some)
  ultimately show "0 < LengthByType \<lparr>urn = u, token = tok\<rparr> ?T ?w1"
    unfolding LengthByType_pos set_entries by (simp only: aff4_object.simps) blast
  show "(\<forall>T. 0 < LengthByType self T w \<longrightarrow> T \<in> set (ListStoredTypes self w))
       \<longrightarrow> (\<forall>T. 0 < LengthByType self T (fst (snd (StaticAdd u tok (Some v) timestamp sfx None w)))
              \<longrightarrow> T \<in> set (ListStoredTypes self
                            (fst (snd (StaticAdd u tok (Some v) timestamp sfx None w)))))"
    using invariant_kept_by_StaticAdd by blast
  show "\<forall>T. 0 < LengthByType self T
               (Add_all self calls \<lparr>store = [], clock = c, random_suffix = r\<rparr>)
         \<longrightarrow> T \<in> set (ListStoredTypes self
                        (Add_all self calls \<lparr>store = [], clock = c, random_suffix = r\<rparr>))"
    by (rule invariant_kept_by_Add_all) (simp add: no_entries_in_empty_store)
  show "Add adder rdf_value timestamp sfx mutation_pool w
       = StaticAdd (urn adder) (token adder) rdf_value timestamp sfx mutation_pool w"
    by (simp add: Add_def)
  show "Cell (urn adder) (VALUE_TYPE_PREFIX @ ?T) (IntValue 1) 0
       \<in> set (store (fst (snd (Add adder (Some v) timestamp sfx None w))))"
    unfolding Add_def by (rule marker_in_store_after_StaticAdd)
  let ?ts = "case timestamp of None \<Rightarrow> clock w | Some t \<Rightarrow> t"
  let ?sfx = "case sfx of None \<Rightarrow> random_suffix w | Some s \<Rightarrow> s"
  let ?staged = "Cell (urn_Add (urn adder) ?T @ [EntryKey ?ts ?sfx])
                   SequentialCollection_ATTRIBUTE (MessageValue (wrap v)) ?ts"
  show "\<exists>entry. Add adder (Some v) timestamp sfx (Some pool) w
         = (Inr None, w,
            Some (pool @ [entry, Cell (urn adder) (VALUE_TYPE_PREFIX @ ?T) (IntValue 1) 0]))
       \<and> attribute entry = SequentialCollection_ATTRIBUTE
       \<and> cell_value entry = MessageValue (wrap v)"
    by (rule exI [of _ ?staged]) (simp add: Add_def StaticAdd_pooled)
  show "store (fst (snd (Add adder (Some v) timestamp sfx None w)))
       = DB_Set (urn adder) (VALUE_TYPE_PREFIX @ ?T) (IntValue 1) 0 (token adder)
           (store (fst (snd (GrrMessageCollection_StaticAdd (urn_Add (urn adder) ?T)
                               (token adder) (wrap v) timestamp sfx None w))))"
    by (simp add: Add_def StaticAdd_direct GrrMessageCollection_StaticAdd_def Let_def)
  show "(\<forall>T. 0 < LengthByType self T w \<longrightarrow> T \<in> set (ListStoredTypes self w))
       \<longrightarrow> (\<forall>T. 0 < LengthByType self T (fst (snd (Add adder (Some v) timestamp sfx None w)))
              \<longrightarrow> T \<in> set (ListStoredTypes self
                            (fst (snd (Add adder (Some v) timestamp sfx None w)))))"
    unfolding Add_def using invariant_kept_by_StaticAdd by blast
qed

text \<open>
  An instance: a value of type "A" added at timestamp 100 to the empty store, through
  \<^verbatim>\<open>StaticAdd\<close> and through \<^verbatim>\<open>Add\<close>. The marker has value 1 and timestamp 0; between
  the two writes "A" has an entry and is not listed; after the add "A" has an entry and is
  listed; with an empty pool the world stays empty and the marker is the last write staged.
\<close>

theorem marker_written_after_entry_witness:
  "Cell [Name ''c''] ''aff4:value_type_A'' (IntValue 1) 0
     \<in> set (store (fst (snd (StaticAdd [Name ''c''] ''t'' (Some (Plain value_A)) (Some 100)
                                (Some 5) None empty_world))))
   \<and> ListStoredTypes example_collection window_world = []
   \<and> 0 < LengthByType example_collection ''A'' window_world
   \<and> 0 < LengthByType example_collection ''A''
           (fst (snd (StaticAdd [Name ''c''] ''t'' (Some (Plain value_A)) (Some 100)
                        (Some 5) None empty_world)))
   \<and> ''A'' \<in> set (ListStoredTypes example_collection
                    (fst (snd (StaticAdd [Name ''c''] ''t'' (Some (Plain value_A))
                                 (Some 100) (Some 5) None empty_world))))
   \<and> Cell [Name ''c''] ''aff4:value_type_A'' (IntValue 1) 0
       \<in> set (store (fst (snd (Add example_collection (Some (Plain value_A)) (Some 100)
                                  (Some 5) None empty_world))))
   \<and> 0 < LengthByType example_collection ''A''
           (fst (snd (Add example_collection (Some (Plain value_A)) (Some 100) (Some 5) None
                        empty_world)))
   \<and> ''A'' \<in> set (ListStoredTypes example_collection
                    (fst (snd (Add example_collection (Some (Plain value_A)) (Some 100)
                                 (Some 5) None empty_world))))
   \<and> fst (snd (Add example_collection (Some (Plain value_A)) (Some 100) (Some 5) (Some [])
                  empty_world)) = empty_world
   \<and> last (the (snd (snd (Add example_collection (Some (Plain value_A)) (Some 100) (Some 5)
                             (Some []) empty_world))))
       = Cell [Name ''c''] ''aff4:value_type_A'' (IntValue 1) 0"
proof -
  have entry: "0 < LengthByType example_collection ''A''
           (fst (snd (StaticAdd [Name ''c''] ''t'' (Some (Plain value_A)) (Some 100)
                        (Some 5) None empty_world)))"
    by (simp add: model_defs)
  have entry_Add: "0 < LengthByType example_collection ''A''
           (fst (snd (Add example_collection (Some (Plain value_A)) (Some 100) (Some 5) None
                        empty_world)))"
    by (simp add: model_defs)
  have inv0: "\<forall>T. 0 < LengthByType example_collection T empty_world
                \<longrightarrow> T \<in> set (ListStoredTypes example_collection empty_world)"
    by (simp add: no_entries_in_empty_store)
  have types0: "ListStoredTypes example_collection empty_world = []"
    by (simp add: ListStoredTypes_def DB_ResolveRow_def)
  have m: "wrap (Plain value_A) = GrrMessage_payload value_A"
    and T: "value_type_of (GrrMessage_payload value_A) = ''A''"
    and P: "VALUE_TYPE_PREFIX @ ''A'' = ''aff4:value_type_A''"
    and U: "urn example_collection = [Name ''c'']"
    by (simp_all add: wrap_def value_type_of_def GrrMessage_payload_def VALUE_TYPE_PREFIX_def)
  note inst = marker_written_after_entry [where u = "[Name ''c'']" and v = "Plain value_A"
      and tok = "''t''" and timestamp = "Some 100" and sfx = "Some 5" and w = empty_world
      and pool = "[]" and self = example_collection and calls = "[]" and c = 7 and r = 9
      and adder = example_collection and rdf_value = "Some (Plain value_A)"
      and mutation_pool = None, unfolded m T P U]
  from inst have "Cell [Name ''c''] ''aff4:value_type_A'' (IntValue 1) 0
     \<in> set (store (fst (snd (StaticAdd [Name ''c''] ''t'' (Some (Plain value_A)) (Some 100)
                                (Some 5) None empty_world))))"
    by blast
  moreover from inst types0 have "ListStoredTypes example_collection window_world = []"
    by simp
  moreover from inst have "0 < LengthByType example_collection ''A'' window_world"
    by blast
  moreover from inst inv0 entry have "''A'' \<in> set (ListStoredTypes example_collection
                    (fst (snd (StaticAdd [Name ''c''] ''t'' (Some (Plain value_A))
                                 (Some 100) (Some 5) None empty_world))))"
    by blast
  moreover from inst have "Cell [Name ''c''] ''aff4:value_type_A'' (IntValue 1) 0
       \<in> set (store (fst (snd (Add example_collection (Some (Plain value_A)) (Some 100)
                                  (Some 5) None empty_world))))"
    by blast
  moreover from inst inv0 entry_Add have "''A'' \<in> set (ListStoredTypes example_collection
                    (fst (snd (Add example_collection (Some (Plain value_A)) (Some 100)
                                 (Some 5) None empty_world))))"
    by blast
  moreover from inst obtain staged where
    "Add example_collection (Some (Plain value_A)) (Some 100) (Some 5) (Some []) empty_world
       = (Inr None, empty_world,
          Some ([] @ [staged, Cell [Name ''c''] ''aff4:value_type_A'' (IntValue 1) 0]))"
    by blast
  then have "fst (snd (Add example_collection (Some (Plain value_A)) (Some 100) (Some 5)
                         (Some []) empty_world)) = empty_world
     \<and> last (the (snd (snd (Add example_collection (Some (Plain value_A)) (Some 100) (Some 5)
                               (Some []) empty_world))))
         = Cell [Name ''c''] ''aff4:value_type_A'' (IntValue 1) 0"
    by simp
  ultimately show ?thesis using entry entry_Add by blast
qed

subsection \<open>Batching\<close>

text \<open>
  C8. With a mutation pool, \<^verbatim>\<open>StaticAdd\<close> leaves the world as it is and stages two writes
  into the pool, after those the pool holds: the entry, then the marker. Without one, the
  two writes are applied to the store, the entry first. \<^verbatim>\<open>Add\<close> is \<^verbatim>\<open>StaticAdd\<close> at the
  collection's own address and token.
\<close>

theorem StaticAdd_stages_or_writes:
  "StaticAdd u tok (Some v) timestamp sfx (Some pool) w =
     (Inr None, w,
      Some (pool @
        [Cell (urn_Add u (value_type_of (wrap v))
                 @ [EntryKey (case timestamp of None \<Rightarrow> clock w | Some t \<Rightarrow> t)
                      (case sfx of None \<Rightarrow> random_suffix w | Some s \<Rightarrow> s)])
           SequentialCollection_ATTRIBUTE (MessageValue (wrap v))
           (case timestamp of None \<Rightarrow> clock w | Some t \<Rightarrow> t),
         Cell u (VALUE_TYPE_PREFIX @ value_type_of (wrap v)) (IntValue 1) 0]))
   \<and> StaticAdd u tok (Some v) timestamp sfx None w =
     (Inr None,
      w\<lparr>store :=
          DB_Set u (VALUE_TYPE_PREFIX @ value_type_of (wrap v)) (IntValue 1) 0 tok
            (DB_Set (urn_Add u (value_type_of (wrap v))
                       @ [EntryKey (case timestamp of None \<Rightarrow> clock w | Some t \<Rightarrow> t)
                            (case sfx of None \<Rightarrow> random_suffix w | Some s \<Rightarrow> s)])
               SequentialCollection_ATTRIBUTE (MessageValue (wrap v))
               (case timestamp of None \<Rightarrow> clock w | Some t \<Rightarrow> t) tok (store w))\<rparr>,
      None)
   \<and> Add self rdf_value timestamp sfx mutation_pool w
       = StaticAdd (urn self) (token self) rdf_value timestamp sfx mutation_pool w"
  by (simp add: StaticAdd_pooled StaticAdd_direct Add_def)

text \<open>
  An instance: the same add with an empty pool, which leaves the store empty and the
  two writes in the pool, and without a pool, which leaves the two writes in the store.
\<close>

theorem StaticAdd_stages_or_writes_witness:
  "Add example_collection (Some (Plain value_A)) (Some 100) (Some 5) (Some []) empty_world =
     (Inr None, empty_world,
      Some [Cell [Name ''c'', Name ''A'', EntryKey 100 5] ''aff4:sequential_value''
              (MessageValue (GrrMessage_payload value_A)) 100,
            Cell [Name ''c''] ''aff4:value_type_A'' (IntValue 1) 0])
   \<and> Add example_collection (Some (Plain value_A)) (Some 100) (Some 5) None empty_world =
     (Inr None,
      empty_world\<lparr>store :=
        [Cell [Name ''c'', Name ''A'', EntryKey 100 5] ''aff4:sequential_value''
           (MessageValue (GrrMessage_payload value_A)) 100,
         Cell [Name ''c''] ''aff4:value_type_A'' (IntValue 1) 0]\<rparr>,
      None)"
  using StaticAdd_stages_or_writes [of "[Name ''c'']" "''t''" "Plain value_A" "Some 100"
      "Some 5" "[]" empty_world example_collection "Some (Plain value_A)" "Some []"]
    StaticAdd_stages_or_writes [of "[Name ''c'']" "''t''" "Plain value_A" "Some 100"
      "Some 5" "[]" empty_world example_collection "Some (Plain value_A)" None]
  by (simp add: wrap_def value_type_of_def GrrMessage_payload_def urn_Add_def DB_Set_def
      VALUE_TYPE_PREFIX_def SequentialCollection_ATTRIBUTE_def)

subsection \<open>Cascading deletion\<close>

text \<open>
  C9. \<^verbatim>\<open>OnDelete\<close>, given a deletion pool, returns normally and has marked for deletion,
  besides what the pool held, exactly the rows of the store that lie under the collection's
  address and carry the sequence's marking attribute. Among them is the row of every entry
  of every per-type sequence of the collection, whether or not the type has a marker.
\<close>

theorem OnDelete_marks_every_sequence_row:
  "\<exists>pool'. OnDelete self (Some pool) w = (Inr (), Some pool')
     \<and> set pool' = set pool \<union> {subject c |c. c \<in> set (store w) \<and> prefix (urn self) (subject c)
                                   \<and> attribute c = SequentialCollection_ATTRIBUTE}
     \<and> (\<forall>T ts sfx m. ((ts, sfx), m) \<in> set (entries (urn_Add (urn self) T) (store w))
           \<longrightarrow> urn_Add (urn self) T @ [EntryKey ts sfx] \<in> set pool')"
proof -
  let ?rows = "DB_ScanAttribute (urn self) SequentialCollection_ATTRIBUTE (token self) (store w)"
  let ?pool' = "pool @ map fst ?rows"
  have run: "OnDelete self (Some pool) w = (Inr (), Some ?pool')"
    by (simp add: OnDelete_def AFF4Object_OnDelete_def OnDelete_loop_Some)
  have reg: "set ?pool' = set pool \<union> {subject c |c. c \<in> set (store w)
               \<and> prefix (urn self) (subject c) \<and> attribute c = SequentialCollection_ATTRIBUTE}"
    by (auto simp: DB_ScanAttribute_def)
  have "urn_Add (urn self) T @ [EntryKey ts sfx] \<in> set ?pool'"
    if "((ts, sfx), m) \<in> set (entries (urn_Add (urn self) T) (store w))" for T ts sfx m
  proof -
    from that obtain c where c: "c \<in> set (store w)"
      and e: "entry_of (urn_Add (urn self) T) c = Some ((ts, sfx), m)"
      by (auto simp: set_entries)
    from e have "attribute c = SequentialCollection_ATTRIBUTE"
      and "subject c = urn_Add (urn self) T @ [EntryKey ts sfx]"
      by (simp_all add: entry_of_Some)
    moreover have "prefix (urn self) (urn_Add (urn self) T @ [EntryKey ts sfx])"
      by (simp add: urn_Add_def)
    ultimately show ?thesis using c unfolding reg by force
  qed
  with run reg show ?thesis by blast
qed

text \<open>
  An instance: the world in which an entry of type "A" was appended and the marker write
  never happened. No type is listed, and the entry's row is marked for deletion.
\<close>

theorem OnDelete_marks_every_sequence_row_witness:
  "ListStoredTypes example_collection window_world = []
   \<and> (\<exists>pool'. OnDelete example_collection (Some []) window_world = (Inr (), Some pool')
        \<and> [Name ''c'', Name ''A'', EntryKey 100 5] \<in> set pool')"
proof -
  have types: "ListStoredTypes example_collection window_world = []"
    by (simp add: model_defs)
  have entry: "((100, 5), GrrMessage_payload value_A)
                 \<in> set (entries (urn_Add (urn example_collection) ''A'') (store window_world))"
    by (simp add: model_defs)
  from OnDelete_marks_every_sequence_row [of example_collection "[]" window_world]
  obtain pool' where "OnDelete example_collection (Some []) window_world = (Inr (), Some pool')"
    and "\<forall>T ts sfx m.
           ((ts, sfx), m) \<in> set (entries (urn_Add (urn example_collection) T) (store window_world))
           \<longrightarrow> urn_Add (urn example_collection) T @ [EntryKey ts sfx] \<in> set pool'"
    by blast
  with entry have "OnDelete example_collection (Some []) window_world = (Inr (), Some pool')
        \<and> [Name ''c'', Name ''A'', EntryKey 100 5] \<in> set pool'"
    by (force simp: urn_Add_def)
  with types show ?thesis by blast
qed

text \<open>
  C10. \<^verbatim>\<open>OnDelete\<close> called without a deletion pool (the parameter's default,
  \<^verbatim>\<open>None\<close>), on a store that holds at least one row under the collection's address with
  the sequence's marking attribute, raises AttributeError at the first such row: it does
  not skip the registration and return.
\<close>

theorem OnDelete_without_pool_raises:
  "\<exists>c \<in> set (store w). prefix (urn self) (subject c)
                         \<and> attribute c = SequentialCollection_ATTRIBUTE
   \<Longrightarrow> OnDelete self None w = (Inl AttributeError, None)"
  unfolding OnDelete_def AFF4Object_OnDelete_def Let_def
  by (rule OnDelete_loop_None) (auto simp: DB_ScanAttribute_def filter_empty_conv)

text \<open>An instance: the store after the three adds of the example.\<close>

theorem OnDelete_without_pool_raises_witness:
  "Cell [Name ''c'', Name ''B'', EntryKey 50 9] SequentialCollection_ATTRIBUTE
       (MessageValue (GrrMessage_payload value_B)) 50 \<in> set (store example_world3)
   \<and> prefix (urn example_collection) [Name ''c'', Name ''B'', EntryKey 50 9]
   \<and> OnDelete example_collection None example_world3 = (Inl AttributeError, None)"
proof -
  have row: "Cell [Name ''c'', Name ''B'', EntryKey 50 9] SequentialCollection_ATTRIBUTE
       (MessageValue (GrrMessage_payload value_B)) 50 \<in> set (store example_world3)"
    by (simp add: model_defs)
  have under: "prefix (urn example_collection) [Name ''c'', Name ''B'', EntryKey 50 9]"
    by simp
  from row under
  have h: "\<exists>c \<in> set (store example_world3). prefix (urn example_collection) (subject c)
                         \<and> attribute c = SequentialCollection_ATTRIBUTE"
    by (intro bexI [of _ "Cell [Name ''c'', Name ''B'', EntryKey 50 9]
          SequentialCollection_ATTRIBUTE (MessageValue (GrrMessage_payload value_B)) 50"])
      simp_all
  show ?thesis using row under OnDelete_without_pool_raises [OF h] by blast
qed

end
